theory Spec2Isabelle
  imports Main
begin

section \<open>The time travel camera worker (src/index.ts)\<close>

text \<open>
  The worker has five routes. Each handler is embedded as a function from the bindings of
  the worker (\<open>c.env\<close>), the platform services it awaits and the request to the response
  it returns, together with the list of external calls it made, in the order it made them.
\<close>

subsection \<open>Values\<close>

text \<open>
  What \<open>JSON.parse\<close> gives. An object holds each of its keys once, in an association
  list. Numbers are kept as integers: the handlers only test whether a number is zero.
  A property that is absent reads as \<open>undefined\<close>, which is \<open>None\<close> of \<open>json option\<close>.
  A string is a list of 8-bit characters; the handlers compare strings and match ASCII
  characters only.
\<close>

datatype json =
    JNull
  | JBool bool
  | JNum int
  | JStr string
  | JArr "json list"
  | JObj "(string \<times> json) list"

text \<open>
  \<open>Buffer.from(s, 'base64')\<close>. The bytes are produced by the platform's decoder
  (\<open>node:buffer\<close>), which is no part of the repository: a buffer is kept as the call
  that makes it.
\<close>

datatype buffer = Buffer_from_base64 string

text \<open>\<open>new File([new Blob([buf], {type})], name, {type})\<close>: content, name, type.\<close>

datatype image_file = File buffer string string

text \<open>A thrown \<open>Error\<close> object, with its \<open>message\<close>.\<close>

datatype js_error = Error string

subsection \<open>The era table\<close>

text \<open>\<open>interface TimePeriod\<close>; the fields are \<open>id\<close>, \<open>name\<close> and \<open>prompt\<close>.\<close>

record TimePeriod =
  period_id :: string
  period_name :: string
  period_prompt :: string

definition TIME_PERIODS :: "TimePeriod list" where
  "TIME_PERIODS =
    [\<lparr>period_id = ''prehistoric'', period_name = ''Prehistoric'',
      period_prompt = ''prehistoric era''\<rparr>,
     \<lparr>period_id = ''ancient-egypt'', period_name = ''Ancient Egypt'',
      period_prompt = ''ancient Egyptian civilization''\<rparr>,
     \<lparr>period_id = ''roman-empire'', period_name = ''Roman Empire'',
      period_prompt = ''ancient Roman civilization''\<rparr>,
     \<lparr>period_id = ''medieval'', period_name = ''Medieval'',
      period_prompt = ''medieval Europe''\<rparr>,
     \<lparr>period_id = ''renaissance'', period_name = ''Renaissance'',
      period_prompt = ''Renaissance period''\<rparr>,
     \<lparr>period_id = ''wild-west'', period_name = ''Wild West'',
      period_prompt = ''American Wild West era''\<rparr>,
     \<lparr>period_id = ''roaring-twenties'', period_name = ''1920s'',
      period_prompt = ''Roaring Twenties''\<rparr>,
     \<lparr>period_id = ''future'', period_name = ''Future (Year 3030)'',
      period_prompt = ''year 3030''\<rparr>]"

text \<open>A \<open>TimePeriod\<close> as \<open>c.json\<close> serialises it.\<close>

definition period_json :: "TimePeriod \<Rightarrow> json" where
  "period_json p =
    JObj [(''id'', JStr (period_id p)), (''name'', JStr (period_name p)),
          (''prompt'', JStr (period_prompt p))]"

subsection \<open>Platform services and bindings\<close>

text \<open>The argument of \<open>openai.images.edit\<close>.\<close>

record edit_request =
  model :: string
  image :: image_file
  prompt :: string
  moderation :: string

text \<open>
  The answer of \<open>openai.images.edit\<close>: \<open>data\<close> may be undefined, and an image may come
  without \<open>b64_json\<close>.
\<close>

record image_result =
  b64_json :: "string option"

record images_response =
  data :: "image_result list option"

text \<open>The \<open>httpMetadata\<close> of an R2 object and the options of \<open>put\<close>.\<close>

record http_metadata =
  contentType :: "string option"
  contentLanguage :: "string option"
  contentDisposition :: "string option"
  contentEncoding :: "string option"
  cacheControl :: "string option"
  cacheExpiry :: "string option"

record put_options =
  httpMetadata :: http_metadata

text \<open>
  An \<open>R2Object\<close> as \<open>list\<close> returns it, and an \<open>R2ObjectBody\<close> as \<open>get\<close> returns it.
  \<open>uploaded\<close> is a \<open>Date\<close>, held as the text \<open>c.json\<close> serialises it to.
\<close>

record r2_object =
  key :: string
  size :: nat
  uploaded :: string
  httpEtag :: string
  object_metadata :: http_metadata

record r2_object_body = r2_object +
  object_body :: buffer

record r2_objects =
  objects :: "r2_object list"
  truncated :: bool

text \<open>
  The store binding \<open>c.env.IMAGES_BUCKET\<close>: the three operations the handlers await.
  Each one either raises an error (\<open>Inl\<close>) or returns.
\<close>

record r2_bucket =
  r2_put :: "string \<Rightarrow> buffer \<Rightarrow> put_options \<Rightarrow> js_error + unit"
  r2_get :: "string \<Rightarrow> js_error + r2_object_body option"
  r2_list :: "js_error + r2_objects"

text \<open>\<open>CloudflareBindings\<close>: a binding that is not configured is undefined.\<close>

record env =
  OPENAI_API_KEY :: "string option"
  IMAGES_BUCKET :: "r2_bucket option"

text \<open>
  What the handlers reach outside the bindings: the image service, called with the API key
  the client was built with, the clock \<open>Date.now()\<close>, in milliseconds since the epoch,
  and the call stack of the engine: \<open>stack_limit\<close> is the number of nested array
  conversions that it holds at line 75 before it overflows.
\<close>

record platform =
  images_edit :: "string \<Rightarrow> edit_request \<Rightarrow> js_error + images_response"
  Date_now :: nat
  stack_limit :: nat

text \<open>The external calls a handler makes.\<close>

datatype effect =
    Images_edit string edit_request
  | R2_put string buffer put_options
  | R2_get string
  | R2_list

text \<open>
  \<open>c.json(value, status)\<close>, with status 200 when none is given, and
  \<open>new Response(body, {headers})\<close>, whose status is 200.
\<close>

datatype response =
    Json json nat
  | Response buffer "(string \<times> string) list"

fun status :: "response \<Rightarrow> nat" where
  "status (Json v s) = s"
| "status (Response b hs) = 200"

subsection \<open>JavaScript operations the handlers use\<close>

text \<open>\<open>!v\<close>: the falsy values that a parsed body can hold.\<close>

fun falsy :: "json option \<Rightarrow> bool" where
  "falsy None = True"
| "falsy (Some JNull) = True"
| "falsy (Some (JBool b)) = (b = False)"
| "falsy (Some (JNum n)) = (n = 0)"
| "falsy (Some (JStr s)) = (s = [])"
| "falsy (Some (JArr xs)) = False"
| "falsy (Some (JObj kvs)) = False"

text \<open>
  \<open>const { timeperiod, imageData } = body\<close>: reading a property of the parsed body.
  Destructuring \<open>null\<close> raises a TypeError (\<open>Inl\<close>); a string, number, boolean or array
  has neither property.
\<close>

fun get_property :: "json \<Rightarrow> string \<Rightarrow> unit + json option" where
  "get_property JNull k = Inl ()"
| "get_property (JObj kvs) k = Inr (map_of kvs k)"
| "get_property v k = Inr None"

text \<open>
  The conversion to a string that a template literal applies, here only whether it
  raises. An object that has a key \<open>toString\<close> of its own has no callable \<open>toString\<close>,
  and \<open>valueOf\<close> gives no primitive, so the conversion raises a TypeError. An array joins
  the conversions of its elements, \<open>null\<close> elements excepted, and each level of nesting
  is a nested call: with \<open>d\<close> levels left on the stack, an array nested deeper than \<open>d\<close>
  overflows it and the conversion raises a RangeError. Strings, numbers, booleans and
  \<open>null\<close> convert without a call.
\<close>

fun to_string_raises :: "nat \<Rightarrow> json \<Rightarrow> bool" where
  "to_string_raises d (JObj kvs) = (''toString'' \<in> set (map fst kvs))"
| "to_string_raises d (JArr xs) =
    (case d of 0 \<Rightarrow> True | Suc d' \<Rightarrow> list_ex (to_string_raises d') xs)"
| "to_string_raises d v = False"

text \<open>The same for a value that may be \<open>undefined\<close>, which converts without error.\<close>

fun template_raises :: "nat \<Rightarrow> json option \<Rightarrow> bool" where
  "template_raises d None = False"
| "template_raises d (Some v) = to_string_raises d v"

text \<open>
  The decimal digits of a number, as \<open>${timestamp}\<close> writes them (a clock reading is
  an integer far below the size at which JavaScript turns to exponent notation).
  \<open>digit_char\<close> is applied to numbers below ten only.
\<close>

definition digit_char :: "nat \<Rightarrow> char" where
  "digit_char d = ''0123456789'' ! d"

function nat_to_string :: "nat \<Rightarrow> string" where
  "nat_to_string n =
    (if n < 10 then [digit_char n]
     else nat_to_string (n div 10) @ [digit_char (n mod 10)])"
  by pat_completeness auto
termination
  by (relation "measure (\<lambda>n. n)") auto

declare nat_to_string.simps [simp del]

text \<open>\<open>\w\<close> of a regular expression without flags: \<open>[A-Za-z0-9_]\<close>.\<close>

definition is_word_char :: "char \<Rightarrow> bool" where
  "is_word_char c =
    (let n = of_char c :: nat in
     (48 \<le> n \<and> n \<le> 57) \<or> (65 \<le> n \<and> n \<le> 90) \<or> (97 \<le> n \<and> n \<le> 122) \<or> n = 95)"

text \<open>
  \<open>imageData.replace(/^data:image\/\w+;base64,/, "")\<close>. The run of word characters
  is the longest one: it ends before \<open>;\<close>, which is no word character, so a shorter
  run never matches where the longest does not.
\<close>

definition replace_data_uri_prefix :: "string \<Rightarrow> string" where
  "replace_data_uri_prefix s =
    (if take 11 s = ''data:image/'' then
       (let r = drop 11 s;
            w = takeWhile is_word_char r;
            t = dropWhile is_word_char r
        in if w \<noteq> [] \<and> take 8 t = '';base64,'' then drop 8 t else s)
     else s)"

text \<open>
  \<open>Headers.set\<close>: the value replaces the one held under the name. Names are matched
  without regard to case, so they are written in lower case.
\<close>

definition headers_set :: "string \<Rightarrow> string \<Rightarrow> (string \<times> string) list \<Rightarrow> (string \<times> string) list" where
  "headers_set n v hs = filter (\<lambda>(k, x). k \<noteq> n) hs @ [(n, v)]"

definition headers_set_opt :: "string \<Rightarrow> string option \<Rightarrow> (string \<times> string) list \<Rightarrow> (string \<times> string) list" where
  "headers_set_opt n v hs = (case v of None \<Rightarrow> hs | Some x \<Rightarrow> headers_set n x hs)"

text \<open>\<open>object.writeHttpMetadata(headers)\<close>: each field that is defined sets its header.\<close>

definition writeHttpMetadata :: "http_metadata \<Rightarrow> (string \<times> string) list \<Rightarrow> (string \<times> string) list" where
  "writeHttpMetadata m hs =
    headers_set_opt ''expires'' (cacheExpiry m)
     (headers_set_opt ''cache-control'' (cacheControl m)
      (headers_set_opt ''content-encoding'' (contentEncoding m)
       (headers_set_opt ''content-disposition'' (contentDisposition m)
        (headers_set_opt ''content-language'' (contentLanguage m)
         (headers_set_opt ''content-type'' (contentType m) hs)))))"

subsection \<open>GET /api/health and GET /api/time-periods\<close>

definition health :: response where
  "health = Json (JObj [(''status'', JStr ''ok''), (''message'', JStr ''Server is running'')]) 200"

definition time_periods :: response where
  "time_periods = Json (JArr (map period_json TIME_PERIODS)) 200"

subsection \<open>POST /api/time-travel\<close>

text \<open>\<open>TIME_PERIODS.find(p => p.id === timeperiod)\<close>: only a string is \<open>===\<close> to an id.\<close>

definition find_period :: "json option \<Rightarrow> TimePeriod option" where
  "find_period timeperiod = find (\<lambda>p. timeperiod = Some (JStr (period_id p))) TIME_PERIODS"

definition promptText :: "TimePeriod \<Rightarrow> string" where
  "promptText period =
    ''Transform the provided image into a photorealistic scene taking place in the '' @
    period_prompt period @
    ''. **It is essential to retain the original subjects' identity, features, and the overall composition of the scene.** Modify the setting, clothing, and surrounding elements to accurately reflect the style and atmosphere of the '' @
    period_prompt period @
    ''. The final image should clearly show the original subject transported to this different time period.''"

text \<open>Lines 115 to 128: the request that is sent to the image service.\<close>

definition edit_request_of :: "TimePeriod \<Rightarrow> string \<Rightarrow> edit_request" where
  "edit_request_of period imageData =
    (let base64Data = replace_data_uri_prefix imageData;
         imageBuffer = Buffer_from_base64 base64Data;
         imageFile = File imageBuffer ''image.png'' ''image/png''
     in \<lparr>model = ''gpt-image-1'', image = imageFile, prompt = promptText period,
         moderation = ''low''\<rparr>)"

definition filename_of :: "TimePeriod \<Rightarrow> nat \<Rightarrow> string" where
  "filename_of period timestamp =
    ''timetravel-'' @ period_id period @ ''-'' @ nat_to_string timestamp @ ''.png''"

definition png_options :: put_options where
  "png_options =
    \<lparr>httpMetadata = \<lparr>contentType = Some ''image/png'', contentLanguage = None,
       contentDisposition = None, contentEncoding = None, cacheControl = None,
       cacheExpiry = None\<rparr>\<rparr>"

definition dataUri :: "string \<Rightarrow> string" where
  "dataUri b64 = ''data:image/png;base64,'' @ b64"

text \<open>
  Lines 140 to 186, the innermost \<open>try\<close>: the image is stored when a bucket is bound,
  and an error of \<open>put\<close> is caught and answered with the data URI.
\<close>

definition store_image :: "env \<Rightarrow> platform \<Rightarrow> TimePeriod \<Rightarrow> string \<Rightarrow> response \<times> effect list" where
  "store_image e pf period b64 =
    (case IMAGES_BUCKET e of
       Some bucket \<Rightarrow>
         (let timestamp = Date_now pf;
              filename = filename_of period timestamp;
              binaryData = Buffer_from_base64 b64
          in case r2_put bucket filename binaryData png_options of
               Inr u \<Rightarrow>
                 (Json (JObj [(''success'', JBool True),
                              (''image'', JStr (''/api/images/'' @ filename)),
                              (''stored'', JBool True),
                              (''filename'', JStr filename),
                              (''timeperiod'', period_json period)]) 200,
                  [R2_put filename binaryData png_options])
             | Inl (Error message) \<Rightarrow>
                 (Json (JObj [(''success'', JBool True),
                              (''image'', JStr (dataUri b64)),
                              (''stored'', JBool False),
                              (''storageError'', JStr message),
                              (''timeperiod'', period_json period)]) 200,
                  [R2_put filename binaryData png_options]))
     | None \<Rightarrow>
         (Json (JObj [(''success'', JBool True),
                      (''image'', JStr (dataUri b64)),
                      (''stored'', JBool False),
                      (''timeperiod'', period_json period)]) 200,
          []))"

text \<open>The \<open>catch (openaiError)\<close> of the inner \<open>try\<close>.\<close>

definition openai_failure :: "string \<Rightarrow> response" where
  "openai_failure message =
    Json (JObj [(''error'', JStr ''Failed to generate image with OpenAI''),
                (''details'', JStr (if message = [] then ''Unknown OpenAI error'' else message))])
         500"

text \<open>
  Lines 112 to 202, the inner \<open>try\<close>. \<open>imageData\<close> is truthy here (the handler
  has returned otherwise); when it is no string it has no \<open>replace\<close> method and the
  call raises a TypeError, which the \<open>catch\<close> answers like an error of the image
  service.
\<close>

definition generate :: "env \<Rightarrow> platform \<Rightarrow> string \<Rightarrow> TimePeriod \<Rightarrow> json option \<Rightarrow> response \<times> effect list" where
  "generate e pf apiKey period imageData =
    (case imageData of
       Some (JStr s) \<Rightarrow>
         (let req = edit_request_of period s in
          case images_edit pf apiKey req of
            Inl (Error message) \<Rightarrow> (openai_failure message, [Images_edit apiKey req])
          | Inr result \<Rightarrow>
              (case data result of
                 None \<Rightarrow>
                   (openai_failure ''OpenAI returned invalid response format'',
                    [Images_edit apiKey req])
               | Some [] \<Rightarrow>
                   (openai_failure ''OpenAI returned invalid response format'',
                    [Images_edit apiKey req])
               | Some (first # rest) \<Rightarrow>
                   (case b64_json first of
                      Some (c # cs) \<Rightarrow>
                        (let (r, effs) = store_image e pf period (c # cs)
                         in (r, Images_edit apiKey req # effs))
                    | _ \<Rightarrow>
                        (Json (JObj [(''error'', JStr ''No image returned from OpenAI''),
                                     (''details'',
                                      JStr ''The API response did not include image data'')])
                              500,
                         [Images_edit apiKey req]))))
     | _ \<Rightarrow> (openai_failure ''imageData.replace is not a function'', []))"

text \<open>The outer \<open>catch\<close>.\<close>

definition failed_to_process :: response where
  "failed_to_process = Json (JObj [(''error'', JStr ''Failed to process request'')]) 500"

text \<open>
  The handler. The body is \<open>None\<close> when \<open>c.req.json()\<close> rejects. The log line 75 converts
  \<open>timeperiod\<close> to a string before any check, and an error there reaches the outer
  \<open>catch\<close>.
\<close>

definition time_travel :: "env \<Rightarrow> platform \<Rightarrow> json option \<Rightarrow> response \<times> effect list" where
  "time_travel e pf request =
    (case request of
       None \<Rightarrow> (failed_to_process, [])
     | Some body \<Rightarrow>
         (case (get_property body ''timeperiod'', get_property body ''imageData'') of
            (Inr timeperiod, Inr imageData) \<Rightarrow>
              if template_raises (stack_limit pf) timeperiod
              then (failed_to_process, [])
              else if falsy timeperiod \<or> falsy imageData
              then (Json (JObj [(''error'', JStr ''Missing required parameters'')]) 400, [])
              else
                (case OPENAI_API_KEY e of
                   Some (k # ks) \<Rightarrow>
                     (case find_period timeperiod of
                        None \<Rightarrow> (Json (JObj [(''error'', JStr ''Invalid time period'')]) 400, [])
                      | Some period \<Rightarrow> generate e pf (k # ks) period imageData)
                 | _ \<Rightarrow>
                     (Json (JObj [(''error'', JStr ''OpenAI API key not configured''),
                                  (''details'',
                                   JStr ''Please add OPENAI_API_KEY to your environment variables'')])
                           500,
                      []))
          | _ \<Rightarrow> (failed_to_process, [])))"

subsection \<open>GET /api/images/:filename\<close>

definition images_get :: "env \<Rightarrow> string \<Rightarrow> response \<times> effect list" where
  "images_get e filename =
    (case IMAGES_BUCKET e of
       None \<Rightarrow> (Json (JObj [(''error'', JStr ''R2 bucket not configured'')]) 500, [])
     | Some bucket \<Rightarrow>
         (case r2_get bucket filename of
            Inl (Error message) \<Rightarrow>
              (Json (JObj [(''error'', JStr ''Failed to retrieve image''),
                           (''details'', JStr message)]) 500,
               [R2_get filename])
          | Inr None \<Rightarrow>
              (Json (JObj [(''error'', JStr ''Image not found'')]) 404, [R2_get filename])
          | Inr (Some object) \<Rightarrow>
              (let headers = writeHttpMetadata (object_metadata object) [];
                   headers = headers_set ''etag'' (httpEtag object) headers;
                   headers = headers_set ''cache-control'' ''public, max-age=31536000'' headers
               in (Response (object_body object) headers, [R2_get filename]))))"

subsection \<open>GET /api/images\<close>

definition image_entry :: "r2_object \<Rightarrow> json" where
  "image_entry obj =
    JObj [(''key'', JStr (key obj)),
          (''url'', JStr (''/api/images/'' @ key obj)),
          (''size'', JNum (int (size obj))),
          (''uploaded'', JStr (uploaded obj))]"

definition images_list :: "env \<Rightarrow> response \<times> effect list" where
  "images_list e =
    (case IMAGES_BUCKET e of
       None \<Rightarrow> (Json (JObj [(''error'', JStr ''R2 bucket not configured'')]) 500, [])
     | Some bucket \<Rightarrow>
         (case r2_list bucket of
            Inl (Error message) \<Rightarrow>
              (Json (JObj [(''error'', JStr ''Failed to list images''),
                           (''details'', JStr message)]) 500,
               [R2_list])
          | Inr objs \<Rightarrow>
              (let images = map image_entry (objects objs)
               in (Json (JObj [(''images'', JArr images),
                               (''count'', JNum (int (length images)))]) 200,
                   [R2_list]))))"

subsection \<open>Observing the calls\<close>

text \<open>The keys of the \<open>put\<close> calls among the calls of a handler.\<close>

fun put_keys :: "effect list \<Rightarrow> string list" where
  "put_keys [] = []"
| "put_keys (R2_put k b opts # es) = k # put_keys es"
| "put_keys (x # es) = put_keys es"

text \<open>The value held under a header name or under a key of a JSON object.\<close>

definition header :: "response \<Rightarrow> string \<Rightarrow> string option" where
  "header r n = (case r of Response b hs \<Rightarrow> map_of hs n | Json v s \<Rightarrow> None)"

definition field :: "response \<Rightarrow> string \<Rightarrow> json option" where
  "field r k = (case r of Json (JObj kvs) s \<Rightarrow> map_of kvs k | _ \<Rightarrow> None)"

subsection \<open>Sample bindings and requests\<close>

text \<open>
  Concrete bindings at which the theorems below are instantiated: a store whose
  operations return, a store whose \<open>put\<close> raises, an image service that answers with a
  given payload, and a clock.
\<close>

definition sample_object :: r2_object_body where
  "sample_object =
    \<lparr>key = ''timetravel-medieval-1730641200000.png'', size = 3,
     uploaded = ''2024-11-03T13:40:00.000Z'', httpEtag = [CHR 0x22, CHR ''a'', CHR 0x22],
     object_metadata = httpMetadata png_options,
     object_body = Buffer_from_base64 ''QUJD''\<rparr>"

definition sample_listing :: r2_objects where
  "sample_listing =
    \<lparr>objects =
       [\<lparr>key = ''timetravel-medieval-1730641200000.png'', size = 3,
         uploaded = ''2024-11-03T13:40:00.000Z'', httpEtag = [CHR 0x22, CHR ''a'', CHR 0x22],
         object_metadata = httpMetadata png_options\<rparr>],
     truncated = False\<rparr>"

definition sample_bucket :: r2_bucket where
  "sample_bucket =
    \<lparr>r2_put = (\<lambda>k b opts. Inr ()),
     r2_get = (\<lambda>k. Inr (if k = ''timetravel-medieval-1730641200000.png''
                          then Some sample_object else None)),
     r2_list = Inr sample_listing\<rparr>"

definition failing_bucket :: r2_bucket where
  "failing_bucket =
    \<lparr>r2_put = (\<lambda>k b opts. Inl (Error ''put failed'')),
     r2_get = (\<lambda>k. Inl (Error ''get failed'')),
     r2_list = Inl (Error ''list failed'')\<rparr>"

definition sample_platform :: "string \<Rightarrow> platform" where
  "sample_platform b64 =
    \<lparr>images_edit = (\<lambda>k r. Inr \<lparr>data = Some [\<lparr>b64_json = Some b64\<rparr>]\<rparr>),
     Date_now = 1730641200000, stack_limit = 5000\<rparr>"

definition sample_env :: "string option \<Rightarrow> r2_bucket option \<Rightarrow> env" where
  "sample_env k b = \<lparr>OPENAI_API_KEY = k, IMAGES_BUCKET = b\<rparr>"

definition medieval :: TimePeriod where
  "medieval =
    \<lparr>period_id = ''medieval'', period_name = ''Medieval'', period_prompt = ''medieval Europe''\<rparr>"

section \<open>Properties\<close>

subsection \<open>Digits, era lookup and the data URI prefix\<close>

lemma digit_char_in: "d < 10 \<Longrightarrow> digit_char d \<in> set ''0123456789''"
  unfolding digit_char_def by (rule nth_mem) simp

lemma digit_char_inj: "a < 10 \<Longrightarrow> b < 10 \<Longrightarrow> digit_char a = digit_char b \<Longrightarrow> a = b"
  unfolding digit_char_def
  by (subst (asm) nth_eq_iff_index_eq) simp_all

lemma nat_to_string_not_Nil: "nat_to_string n \<noteq> []"
  by (subst nat_to_string.simps) simp

lemma nat_to_string_digits: "set (nat_to_string n) \<subseteq> set ''0123456789''"
proof (induction n rule: nat_to_string.induct)
  case (1 n)
  show ?case
  proof (cases "n < 10")
    case True
    then show ?thesis
      using digit_char_in [of n] by (subst nat_to_string.simps) simp
  next
    case False
    have "n mod 10 < 10" by simp
    then have "digit_char (n mod 10) \<in> set ''0123456789''" by (rule digit_char_in)
    with False "1.IH" show ?thesis
      by (subst nat_to_string.simps) simp
  qed
qed

lemma nat_to_string_length: "10 \<le> n \<Longrightarrow> 2 \<le> length (nat_to_string n)"
  using nat_to_string_not_Nil [of "n div 10"]
  by (subst nat_to_string.simps) (cases "nat_to_string (n div 10)"; simp)

lemma nat_to_string_inj: "nat_to_string n = nat_to_string m \<Longrightarrow> n = m"
proof (induction n arbitrary: m rule: nat_to_string.induct)
  case (1 n)
  show ?case
  proof (cases "n < 10")
    case n: True
    show ?thesis
    proof (cases "m < 10")
      case True
      with n "1.prems" show ?thesis
        by (simp add: nat_to_string.simps [of n] nat_to_string.simps [of m] digit_char_inj)
    next
      case False
      then have "2 \<le> length (nat_to_string m)" by (simp add: nat_to_string_length)
      moreover have "length (nat_to_string n) = 1"
        using n by (simp add: nat_to_string.simps [of n])
      ultimately show ?thesis using "1.prems" by simp
    qed
  next
    case n: False
    show ?thesis
    proof (cases "m < 10")
      case True
      then have "length (nat_to_string m) = 1" by (simp add: nat_to_string.simps [of m])
      moreover have "2 \<le> length (nat_to_string n)" using n by (simp add: nat_to_string_length)
      ultimately show ?thesis using "1.prems" by simp
    next
      case False
      with n "1.prems" have eq: "nat_to_string (n div 10) = nat_to_string (m div 10)"
        and d: "digit_char (n mod 10) = digit_char (m mod 10)"
        by (simp_all add: nat_to_string.simps [of n] nat_to_string.simps [of m])
      from "1.IH" [OF n eq] have "n div 10 = m div 10" .
      moreover from d have "n mod 10 = m mod 10" by (intro digit_char_inj) simp_all
      ultimately show ?thesis by (metis div_mult_mod_eq)
    qed
  qed
qed

lemma find_period_id: "find_period (Some (JStr i)) = Some p \<Longrightarrow> period_id p = i \<and> p \<in> set TIME_PERIODS"
  unfolding find_period_def by (auto simp: find_Some_iff)

lemma find_period_not_empty: "find_period (Some (JStr [])) = None"
  by (simp add: find_period_def TIME_PERIODS_def)

lemma find_period_string: "find_period v = Some p \<Longrightarrow> v = Some (JStr (period_id p))"
  unfolding find_period_def by (auto simp: find_Some_iff)

lemma semicolon_no_word_char: "\<not> is_word_char CHR '';''"
  by (simp add: is_word_char_def)

lemma replace_strips:
  assumes "w \<noteq> []" and "list_all is_word_char w"
  shows "replace_data_uri_prefix (''data:image/'' @ w @ '';base64,'' @ rest) = rest"
proof -
  have w: "\<And>x. x \<in> set w \<Longrightarrow> is_word_char x" using assms(2) by (simp add: list_all_iff)
  have t: "takeWhile is_word_char (w @ '';base64,'' @ rest) = w"
    using w by (simp add: semicolon_no_word_char)
  have d: "dropWhile is_word_char (w @ '';base64,'' @ rest) = '';base64,'' @ rest"
    using w by (simp add: semicolon_no_word_char)
  show ?thesis
    unfolding replace_data_uri_prefix_def Let_def using assms(1) t d by simp
qed

lemma replace_keeps:
  assumes "\<nexists>w rest. w \<noteq> [] \<and> list_all is_word_char w \<and> s = ''data:image/'' @ w @ '';base64,'' @ rest"
  shows "replace_data_uri_prefix s = s"
proof (rule ccontr)
  assume neq: "replace_data_uri_prefix s \<noteq> s"
  let ?r = "drop 11 s"
  let ?w = "takeWhile is_word_char ?r"
  let ?t = "dropWhile is_word_char ?r"
  from neq have p: "take 11 s = ''data:image/''" and w: "?w \<noteq> []" and t: "take 8 ?t = '';base64,''"
    unfolding replace_data_uri_prefix_def Let_def by (auto split: if_splits)
  have "s = take 11 s @ ?r" by simp
  also have "?r = ?w @ ?t" by simp
  also have "?t = take 8 ?t @ drop 8 ?t" by simp
  finally have "s = ''data:image/'' @ ?w @ '';base64,'' @ drop 8 ?t"
    using p t by simp
  moreover have "list_all is_word_char ?w"
    by (simp add: list_all_iff) (meson set_takeWhileD)
  ultimately show False using assms w by blast
qed

subsection \<open>The transform handler on a valid request\<close>

lemma store_image_stored:
  assumes "IMAGES_BUCKET e = Some bucket"
    and "r2_put bucket (filename_of period (Date_now pf)) (Buffer_from_base64 b64) png_options = Inr u"
  shows "store_image e pf period b64 =
      (Json (JObj [(''success'', JBool True),
                   (''image'', JStr (''/api/images/'' @ filename_of period (Date_now pf))),
                   (''stored'', JBool True),
                   (''filename'', JStr (filename_of period (Date_now pf))),
                   (''timeperiod'', period_json period)]) 200,
       [R2_put (filename_of period (Date_now pf)) (Buffer_from_base64 b64) png_options])"
  using assms by (simp add: store_image_def Let_def)

lemma store_image_put_raises:
  assumes "IMAGES_BUCKET e = Some bucket"
    and "r2_put bucket (filename_of period (Date_now pf)) (Buffer_from_base64 b64) png_options =
      Inl (Error message)"
  shows "store_image e pf period b64 =
      (Json (JObj [(''success'', JBool True),
                   (''image'', JStr (dataUri b64)),
                   (''stored'', JBool False),
                   (''storageError'', JStr message),
                   (''timeperiod'', period_json period)]) 200,
       [R2_put (filename_of period (Date_now pf)) (Buffer_from_base64 b64) png_options])"
  using assms by (simp add: store_image_def Let_def)

lemma store_image_unbound:
  assumes "IMAGES_BUCKET e = None"
  shows "store_image e pf period b64 =
      (Json (JObj [(''success'', JBool True),
                   (''image'', JStr (dataUri b64)),
                   (''stored'', JBool False),
                   (''timeperiod'', period_json period)]) 200,
       [])"
  using assms by (simp add: store_image_def)

lemma generate_image:
  assumes "images_edit pf apiKey (edit_request_of period s) = Inr result"
    and "data result = Some (first # rest)"
    and "b64_json first = Some b64" and "b64 \<noteq> []"
  shows "generate e pf apiKey period (Some (JStr s)) =
      (fst (store_image e pf period b64),
       Images_edit apiKey (edit_request_of period s) # snd (store_image e pf period b64))"
proof -
  obtain c cs where "b64 = c # cs" using assms(4) by (cases b64) auto
  with assms(1,2,3) show ?thesis
    by (simp add: generate_def Let_def case_prod_unfold)
qed

lemma generate_calls_service:
  "\<exists>effs. snd (generate e pf apiKey period (Some (JStr s))) =
      Images_edit apiKey (edit_request_of period s) # effs"
  by (simp add: generate_def Let_def case_prod_unfold
      split: sum.split js_error.split option.split list.split)

lemma time_travel_valid:
  assumes "get_property body ''timeperiod'' = Inr (Some (JStr i))"
    and "find_period (Some (JStr i)) = Some period"
    and "get_property body ''imageData'' = Inr (Some (JStr s))"
    and "s \<noteq> []"
    and "OPENAI_API_KEY e = Some apiKey" and "apiKey \<noteq> []"
  shows "time_travel e pf (Some body) = generate e pf apiKey period (Some (JStr s))"
proof -
  from assms(2) have "i \<noteq> []" using find_period_not_empty by auto
  moreover obtain k ks where "apiKey = k # ks" using assms(6) by (cases apiKey) auto
  ultimately show ?thesis
    using assms(1,2,3,4,5) by (simp add: time_travel_def)
qed

text \<open>The sample request and the sample image service, evaluated.\<close>

lemma sample_request_valid:
  "get_property (JObj [(''timeperiod'', JStr ''medieval''), (''imageData'', JStr img)])
      ''timeperiod'' = Inr (Some (JStr ''medieval''))"
  "find_period (Some (JStr ''medieval'')) = Some medieval"
  "get_property (JObj [(''timeperiod'', JStr ''medieval''), (''imageData'', JStr img)])
      ''imageData'' = Inr (Some (JStr img))"
  by (simp_all add: find_period_def TIME_PERIODS_def medieval_def)

lemma sample_platform_answer:
  "images_edit (sample_platform b64) k r = Inr \<lparr>data = Some [\<lparr>b64_json = Some b64\<rparr>]\<rparr>"
  "data \<lparr>data = Some [\<lparr>b64_json = Some b64\<rparr>]\<rparr> = Some (\<lparr>b64_json = Some b64\<rparr> # [])"
  "b64_json \<lparr>b64_json = Some b64\<rparr> = Some b64"
  by (simp_all add: sample_platform_def)

text \<open>
  Claim C3. A transform request with a known era id and a non-empty image string, with
  the credential configured, a store bound, an answer of the image service that holds a
  non-empty \<open>b64_json\<close> and a \<open>put\<close> that returns: the handler calls the image service
  once and \<open>put\<close> once, under the generated key, and answers with status 200 and the
  body \<open>{success: true, image: "/api/images/" + filename, stored: true, filename,
  timeperiod}\<close>, where \<open>filename\<close> is \<open>timetravel-<era id>-<digits>.png\<close> and
  \<open>timeperiod\<close> is the era record.
\<close>

theorem transform_stores_image:
  assumes tp: "get_property body ''timeperiod'' = Inr (Some (JStr i))"
    and era: "find_period (Some (JStr i)) = Some period"
    and img: "get_property body ''imageData'' = Inr (Some (JStr s))"
    and s: "s \<noteq> []"
    and cred: "OPENAI_API_KEY e = Some apiKey" "apiKey \<noteq> []"
    and store: "IMAGES_BUCKET e = Some bucket"
    and up: "images_edit pf apiKey (edit_request_of period s) = Inr result"
      "data result = Some (first # rest)" "b64_json first = Some b64" "b64 \<noteq> []"
    and wr: "r2_put bucket (filename_of period (Date_now pf)) (Buffer_from_base64 b64) png_options = Inr ()"
  shows "\<exists>filename digits.
    time_travel e pf (Some body) =
      (Json (JObj [(''success'', JBool True),
                   (''image'', JStr (''/api/images/'' @ filename)),
                   (''stored'', JBool True),
                   (''filename'', JStr filename),
                   (''timeperiod'', period_json period)]) 200,
       [Images_edit apiKey (edit_request_of period s),
        R2_put filename (Buffer_from_base64 b64) png_options]) \<and>
    put_keys (snd (time_travel e pf (Some body))) = [filename] \<and>
    filename = ''timetravel-'' @ i @ ''-'' @ digits @ ''.png'' \<and>
    digits \<noteq> [] \<and> set digits \<subseteq> set ''0123456789''"
proof -
  let ?f = "filename_of period (Date_now pf)"
  let ?d = "nat_to_string (Date_now pf)"
  from era have i: "period_id period = i" by (simp add: find_period_id)
  have tt: "time_travel e pf (Some body) =
      (Json (JObj [(''success'', JBool True),
                   (''image'', JStr (''/api/images/'' @ ?f)),
                   (''stored'', JBool True),
                   (''filename'', JStr ?f),
                   (''timeperiod'', period_json period)]) 200,
       [Images_edit apiKey (edit_request_of period s),
        R2_put ?f (Buffer_from_base64 b64) png_options])"
    by (simp add: time_travel_valid [OF tp era img s cred] generate_image [OF up]
        store_image_stored [OF store wr])
  have keys: "put_keys (snd (time_travel e pf (Some body))) = [?f]"
    by (simp add: tt)
  have name: "?f = ''timetravel-'' @ i @ ''-'' @ ?d @ ''.png''"
    by (simp add: filename_of_def i)
  have digits: "?d \<noteq> [] \<and> set ?d \<subseteq> set ''0123456789''"
    using nat_to_string_not_Nil nat_to_string_digits by blast
  from tt keys name digits show ?thesis by blast
qed

theorem transform_stores_image_witness:
  "time_travel (sample_env (Some ''sk-test'') (Some sample_bucket)) (sample_platform ''QUJD'')
      (Some (JObj [(''timeperiod'', JStr ''medieval''),
                   (''imageData'', JStr ''data:image/png;base64,AAAA'')])) =
     (Json (JObj [(''success'', JBool True),
                  (''image'', JStr ''/api/images/timetravel-medieval-1730641200000.png''),
                  (''stored'', JBool True),
                  (''filename'', JStr ''timetravel-medieval-1730641200000.png''),
                  (''timeperiod'', period_json medieval)]) 200,
      [Images_edit ''sk-test'' (edit_request_of medieval ''data:image/png;base64,AAAA''),
       R2_put ''timetravel-medieval-1730641200000.png'' (Buffer_from_base64 ''QUJD'')
         png_options])"
proof -
  let ?body = "JObj [(''timeperiod'', JStr ''medieval''),
                     (''imageData'', JStr ''data:image/png;base64,AAAA'')]"
  let ?e = "sample_env (Some ''sk-test'') (Some sample_bucket)"
  let ?pf = "sample_platform ''QUJD''"
  have tp: "get_property ?body ''timeperiod'' = Inr (Some (JStr ''medieval''))" by simp
  have era: "find_period (Some (JStr ''medieval'')) = Some medieval"
    by (simp add: find_period_def TIME_PERIODS_def medieval_def)
  have img: "get_property ?body ''imageData'' = Inr (Some (JStr ''data:image/png;base64,AAAA''))"
    by simp
  have s: "''data:image/png;base64,AAAA'' \<noteq> []" by simp
  have cred: "OPENAI_API_KEY ?e = Some ''sk-test''" "''sk-test'' \<noteq> []"
    by (simp_all add: sample_env_def)
  have store: "IMAGES_BUCKET ?e = Some sample_bucket" by (simp add: sample_env_def)
  have up: "images_edit ?pf ''sk-test'' (edit_request_of medieval ''data:image/png;base64,AAAA'') =
      Inr \<lparr>data = Some [\<lparr>b64_json = Some ''QUJD''\<rparr>]\<rparr>"
    "data \<lparr>data = Some [\<lparr>b64_json = Some ''QUJD''\<rparr>]\<rparr> = Some (\<lparr>b64_json = Some ''QUJD''\<rparr> # [])"
    "b64_json \<lparr>b64_json = Some ''QUJD''\<rparr> = Some ''QUJD''" "''QUJD'' \<noteq> []"
    by (simp_all add: sample_platform_def)
  have wr: "r2_put sample_bucket (filename_of medieval (Date_now ?pf)) (Buffer_from_base64 ''QUJD'')
      png_options = Inr ()"
    by (simp add: sample_bucket_def)
  have name: "filename_of medieval (Date_now ?pf) = ''timetravel-medieval-1730641200000.png''"
    by (simp add: filename_of_def medieval_def sample_platform_def nat_to_string.simps
        digit_char_def)
  from transform_stores_image [OF tp era img s cred store up wr]
  obtain filename digits where
    "time_travel ?e ?pf (Some ?body) =
      (Json (JObj [(''success'', JBool True),
                   (''image'', JStr (''/api/images/'' @ filename)),
                   (''stored'', JBool True),
                   (''filename'', JStr filename),
                   (''timeperiod'', period_json medieval)]) 200,
       [Images_edit ''sk-test'' (edit_request_of medieval ''data:image/png;base64,AAAA''),
        R2_put filename (Buffer_from_base64 ''QUJD'') png_options])"
    and "put_keys (snd (time_travel ?e ?pf (Some ?body))) = [filename]"
    by blast
  moreover have "put_keys (snd (time_travel ?e ?pf (Some ?body))) = [filename_of medieval (Date_now ?pf)]"
    by (simp add: time_travel_valid [OF tp era img s cred] generate_image [OF up]
        store_image_stored [OF store wr])
  ultimately show ?thesis using name by simp
qed

text \<open>
  Claim C1. On a valid transform request, with the credential configured and an answer of
  the image service that holds a non-empty \<open>b64_json\<close>: when no store is bound, or when
  \<open>put\<close> raises an error, the handler still answers with status 200 and a body whose
  \<open>success\<close> is true, whose \<open>image\<close> is \<open>data:image/png;base64,\<close> followed by the
  payload of the image service, whose \<open>stored\<close> is false and which has no \<open>error\<close> field.
\<close>

theorem transform_falls_back_to_data_uri:
  assumes tp: "get_property body ''timeperiod'' = Inr (Some (JStr i))"
    and era: "find_period (Some (JStr i)) = Some period"
    and img: "get_property body ''imageData'' = Inr (Some (JStr s))"
    and s: "s \<noteq> []"
    and cred: "OPENAI_API_KEY e = Some apiKey" "apiKey \<noteq> []"
    and up: "images_edit pf apiKey (edit_request_of period s) = Inr result"
      "data result = Some (first # rest)" "b64_json first = Some b64" "b64 \<noteq> []"
    and store: "IMAGES_BUCKET e = None \<or>
      (\<exists>bucket message. IMAGES_BUCKET e = Some bucket \<and>
        r2_put bucket (filename_of period (Date_now pf)) (Buffer_from_base64 b64) png_options =
          Inl (Error message))"
  shows "status (fst (time_travel e pf (Some body))) = 200 \<and>
    field (fst (time_travel e pf (Some body))) ''success'' = Some (JBool True) \<and>
    field (fst (time_travel e pf (Some body))) ''image'' =
      Some (JStr (''data:image/png;base64,'' @ b64)) \<and>
    field (fst (time_travel e pf (Some body))) ''stored'' = Some (JBool False) \<and>
    field (fst (time_travel e pf (Some body))) ''error'' = None"
proof -
  have tt: "fst (time_travel e pf (Some body)) = fst (store_image e pf period b64)"
    by (simp add: time_travel_valid [OF tp era img s cred] generate_image [OF up])
  from store show ?thesis
  proof
    assume "IMAGES_BUCKET e = None"
    then show ?thesis
      by (simp add: tt store_image_unbound field_def dataUri_def)
  next
    assume "\<exists>bucket message. IMAGES_BUCKET e = Some bucket \<and>
        r2_put bucket (filename_of period (Date_now pf)) (Buffer_from_base64 b64) png_options =
          Inl (Error message)"
    then obtain bucket message where "IMAGES_BUCKET e = Some bucket"
      and "r2_put bucket (filename_of period (Date_now pf)) (Buffer_from_base64 b64) png_options =
          Inl (Error message)"
      by blast
    then show ?thesis
      by (simp add: tt store_image_put_raises field_def dataUri_def)
  qed
qed

theorem transform_falls_back_to_data_uri_witness:
  "field (fst (time_travel (sample_env (Some ''sk-test'') None) (sample_platform ''QUJD'')
      (Some (JObj [(''timeperiod'', JStr ''medieval''), (''imageData'', JStr ''AAAA'')]))))
      ''image'' = Some (JStr ''data:image/png;base64,QUJD'') \<and>
   field (fst (time_travel (sample_env (Some ''sk-test'') (Some failing_bucket))
      (sample_platform ''QUJD'')
      (Some (JObj [(''timeperiod'', JStr ''medieval''), (''imageData'', JStr ''AAAA'')]))))
      ''image'' = Some (JStr ''data:image/png;base64,QUJD'') \<and>
   field (fst (time_travel (sample_env (Some ''sk-test'') (Some failing_bucket))
      (sample_platform ''QUJD'')
      (Some (JObj [(''timeperiod'', JStr ''medieval''), (''imageData'', JStr ''AAAA'')]))))
      ''stored'' = Some (JBool False)"
proof -
  have s: "''AAAA'' \<noteq> []" and b: "''QUJD'' \<noteq> []" by simp_all
  have cred: "OPENAI_API_KEY (sample_env (Some ''sk-test'') bk) = Some ''sk-test''"
    "''sk-test'' \<noteq> []" for bk
    by (simp_all add: sample_env_def)
  have unbound: "IMAGES_BUCKET (sample_env (Some ''sk-test'') None) = None \<or>
      (\<exists>bucket message. IMAGES_BUCKET (sample_env (Some ''sk-test'') None) = Some bucket \<and>
        r2_put bucket (filename_of medieval (Date_now (sample_platform ''QUJD'')))
          (Buffer_from_base64 ''QUJD'') png_options = Inl (Error message))"
    by (simp add: sample_env_def)
  have raises: "IMAGES_BUCKET (sample_env (Some ''sk-test'') (Some failing_bucket)) = None \<or>
      (\<exists>bucket message.
        IMAGES_BUCKET (sample_env (Some ''sk-test'') (Some failing_bucket)) = Some bucket \<and>
        r2_put bucket (filename_of medieval (Date_now (sample_platform ''QUJD'')))
          (Buffer_from_base64 ''QUJD'') png_options = Inl (Error message))"
    by (simp add: sample_env_def failing_bucket_def)
  from transform_falls_back_to_data_uri [OF sample_request_valid s cred
      sample_platform_answer b unbound]
    transform_falls_back_to_data_uri [OF sample_request_valid s cred
      sample_platform_answer b raises]
  show ?thesis by simp
qed

subsection \<open>The order of the checks\<close>

lemma deep_array_overflows: "to_string_raises d (((\<lambda>v. JArr [v]) ^^ Suc d) v)"
  by (induction d arbitrary: v) simp_all

text \<open>
  An array nested deeper than the stack holds is answered by the outer \<open>catch\<close>,
  whatever the fields and the bindings are.
\<close>

lemma deep_array_is_500:
  "time_travel e pf
      (Some (JObj [(''timeperiod'', ((\<lambda>v. JArr [v]) ^^ Suc (stack_limit pf)) JNull),
                   (''imageData'', imageData)])) =
    (Json (JObj [(''error'', JStr ''Failed to process request'')]) 500, [])"
  using deep_array_overflows [of "stack_limit pf" JNull]
  by (simp add: time_travel_def failed_to_process_def del: funpow.simps)

text \<open>
  The parameter check of line 77 comes first: the answer does not depend on the bindings
  or the platform, and no external call is made.
\<close>

lemma missing_parameters:
  assumes "get_property body ''timeperiod'' = Inr timeperiod"
    and "get_property body ''imageData'' = Inr imageData"
    and "\<not> template_raises (stack_limit pf) timeperiod"
    and "falsy timeperiod \<or> falsy imageData"
  shows "time_travel e pf (Some body) =
    (Json (JObj [(''error'', JStr ''Missing required parameters'')]) 400, [])"
  using assms by (simp add: time_travel_def)

lemma credential_missing:
  assumes "get_property body ''timeperiod'' = Inr timeperiod"
    and "get_property body ''imageData'' = Inr imageData"
    and "\<not> template_raises (stack_limit pf) timeperiod"
    and "\<not> falsy timeperiod" and "\<not> falsy imageData"
    and "OPENAI_API_KEY e = None \<or> OPENAI_API_KEY e = Some []"
  shows "time_travel e pf (Some body) =
    (Json (JObj [(''error'', JStr ''OpenAI API key not configured''),
                 (''details'', JStr ''Please add OPENAI_API_KEY to your environment variables'')])
          500, [])"
  using assms by (auto simp add: time_travel_def)

lemma invalid_time_period:
  assumes "get_property body ''timeperiod'' = Inr timeperiod"
    and "get_property body ''imageData'' = Inr imageData"
    and "\<not> template_raises (stack_limit pf) timeperiod"
    and "\<not> falsy timeperiod" and "\<not> falsy imageData"
    and "OPENAI_API_KEY e = Some apiKey" and "apiKey \<noteq> []"
    and "find_period timeperiod = None"
  shows "time_travel e pf (Some body) =
    (Json (JObj [(''error'', JStr ''Invalid time period'')]) 400, [])"
proof -
  obtain k ks where "apiKey = k # ks" using assms(7) by (cases apiKey) auto
  with assms show ?thesis by (simp add: time_travel_def)
qed

text \<open>
  Claim C2, as stated, fails: without the credential, a request that lacks both fields
  is answered with 400, not with 500.
\<close>

theorem credential_after_parameters_counterexample:
  "time_travel (sample_env None (Some sample_bucket)) (sample_platform ''QUJD'') (Some (JObj [])) =
    (Json (JObj [(''error'', JStr ''Missing required parameters'')]) 400, [])"
  by (simp add: time_travel_def)

text \<open>
  Claim C2, amended. When the credential is not configured (undefined or the empty
  string) and both \<open>timeperiod\<close> and \<open>imageData\<close> are truthy, \<open>timeperiod\<close> being a value
  that line 75 converts to a string without an error (every string, number and boolean
  is), the handler answers with status 500 and the configuration error, whether or not
  \<open>timeperiod\<close> is the id of an era and whatever \<open>imageData\<close> holds, and it makes no
  external call.
\<close>

theorem credential_missing_is_500:
  assumes "get_property body ''timeperiod'' = Inr timeperiod"
    and "get_property body ''imageData'' = Inr imageData"
    and "\<not> template_raises (stack_limit pf) timeperiod"
    and "\<not> falsy timeperiod" and "\<not> falsy imageData"
    and "OPENAI_API_KEY e = None \<or> OPENAI_API_KEY e = Some []"
  shows "status (fst (time_travel e pf (Some body))) = 500 \<and>
    field (fst (time_travel e pf (Some body))) ''error'' =
      Some (JStr ''OpenAI API key not configured'') \<and>
    field (fst (time_travel e pf (Some body))) ''details'' =
      Some (JStr ''Please add OPENAI_API_KEY to your environment variables'') \<and>
    snd (time_travel e pf (Some body)) = []"
  by (simp add: credential_missing [OF assms] field_def)

theorem credential_missing_is_500_witness:
  "status (fst (time_travel (sample_env None (Some sample_bucket)) (sample_platform ''QUJD'')
      (Some (JObj [(''timeperiod'', JStr ''atlantis''), (''imageData'', JNum 5)])))) = 500 \<and>
   field (fst (time_travel (sample_env None (Some sample_bucket)) (sample_platform ''QUJD'')
      (Some (JObj [(''timeperiod'', JStr ''atlantis''), (''imageData'', JNum 5)])))) ''error'' =
     Some (JStr ''OpenAI API key not configured'')"
proof -
  let ?body = "JObj [(''timeperiod'', JStr ''atlantis''), (''imageData'', JNum 5)]"
  have tp: "get_property ?body ''timeperiod'' = Inr (Some (JStr ''atlantis''))" by simp
  have img: "get_property ?body ''imageData'' = Inr (Some (JNum 5))" by simp
  have log: "\<not> template_raises (stack_limit (sample_platform ''QUJD''))
      (Some (JStr ''atlantis''))"
    by simp
  have t1: "\<not> falsy (Some (JStr ''atlantis''))" by simp
  have t2: "\<not> falsy (Some (JNum 5))" by simp
  have cred: "OPENAI_API_KEY (sample_env None (Some sample_bucket)) = None \<or>
      OPENAI_API_KEY (sample_env None (Some sample_bucket)) = Some []"
    by (simp add: sample_env_def)
  from credential_missing_is_500 [OF tp img log t1 t2 cred] show ?thesis by simp
qed

text \<open>
  Claim C4. With the credential configured, a \<open>timeperiod\<close> that is the id of no era is
  answered with status 400 wherever line 75 converts it to a string without an error
  (lemmas \<open>missing_parameters\<close> and \<open>invalid_time_period\<close>). The claim fails where the
  conversion raises: \<open>timeperiod\<close> is an object with a key \<open>toString\<close>, which is the id
  of no era, and \<open>imageData\<close> is a non-empty string. The TypeError of the template
  literal reaches the outer \<open>catch\<close> before any check, and the answer is status 500.
\<close>

theorem unknown_era_behind_log_line:
  "find_period (Some (JObj [(''toString'', JNum 1)])) = None \<and>
   OPENAI_API_KEY (sample_env (Some ''sk-test'') (Some sample_bucket)) = Some ''sk-test'' \<and>
   time_travel (sample_env (Some ''sk-test'') (Some sample_bucket)) (sample_platform ''QUJD'')
      (Some (JObj [(''timeperiod'', JObj [(''toString'', JNum 1)]),
                   (''imageData'', JStr ''AAAA'')])) =
    (Json (JObj [(''error'', JStr ''Failed to process request'')]) 500, [])"
  by (simp add: time_travel_def failed_to_process_def find_period_def TIME_PERIODS_def
      sample_env_def)

text \<open>
  Claim C10 holds wherever line 75 converts \<open>timeperiod\<close> to a string without an error
  (lemma \<open>missing_parameters\<close>), and fails where it does not: \<open>timeperiod\<close> is an object with a
  key \<open>toString\<close> and \<open>imageData\<close> is the empty string. The conversion in the template
  literal raises a TypeError before the check of line 77 is reached, and the outer
  \<open>catch\<close> answers with status 500.
\<close>

theorem falsy_field_behind_log_line:
  "time_travel e pf
      (Some (JObj [(''timeperiod'', JObj [(''toString'', JNum 1)]), (''imageData'', JStr [])])) =
    (Json (JObj [(''error'', JStr ''Failed to process request'')]) 500, [])"
  by (simp add: time_travel_def failed_to_process_def)

subsection \<open>The media handlers\<close>

lemma map_of_headers_set: "map_of (headers_set n v hs) k = (if k = n then Some v else map_of hs k)"
proof -
  have "map_of (filter (\<lambda>(a, x). a \<noteq> n) hs) k = (if k = n then None else map_of hs k)"
    by (induction hs) auto
  then show ?thesis
    by (auto simp add: headers_set_def map_add_def split: option.split)
qed

lemma map_of_headers_set_opt:
  "map_of (headers_set_opt n v hs) k = (if k = n \<and> v \<noteq> None then v else map_of hs k)"
  by (cases v) (simp_all add: headers_set_opt_def map_of_headers_set)

lemma content_type_written:
  "map_of (writeHttpMetadata m []) ''content-type'' = contentType m"
  by (simp add: writeHttpMetadata_def map_of_headers_set_opt)

text \<open>
  Claim C5. A media fetch request is answered with status 500 and a configuration error
  when no store is bound; with status 404 when \<open>get\<close> finds no object under the key;
  and, when \<open>get\<close> returns an object, with status 200, the body of the object, the
  content type stored with it, its entity tag and
  \<open>Cache-Control: public, max-age=31536000\<close>.
\<close>

theorem media_fetch:
  "(IMAGES_BUCKET e = None \<longrightarrow>
      images_get e filename =
        (Json (JObj [(''error'', JStr ''R2 bucket not configured'')]) 500, [])) \<and>
   (IMAGES_BUCKET e = Some bucket \<and> r2_get bucket filename = Inr None \<longrightarrow>
      images_get e filename =
        (Json (JObj [(''error'', JStr ''Image not found'')]) 404, [R2_get filename])) \<and>
   (IMAGES_BUCKET e = Some bucket \<and> r2_get bucket filename = Inr (Some object) \<longrightarrow>
      (\<exists>headers. images_get e filename = (Response (object_body object) headers, [R2_get filename])) \<and>
      status (fst (images_get e filename)) = 200 \<and>
      header (fst (images_get e filename)) ''content-type'' = contentType (object_metadata object) \<and>
      header (fst (images_get e filename)) ''etag'' = Some (httpEtag object) \<and>
      header (fst (images_get e filename)) ''cache-control'' = Some ''public, max-age=31536000'')"
proof (intro conjI impI)
  assume "IMAGES_BUCKET e = None"
  then show "images_get e filename =
      (Json (JObj [(''error'', JStr ''R2 bucket not configured'')]) 500, [])"
    by (simp add: images_get_def)
next
  assume "IMAGES_BUCKET e = Some bucket \<and> r2_get bucket filename = Inr None"
  then show "images_get e filename =
      (Json (JObj [(''error'', JStr ''Image not found'')]) 404, [R2_get filename])"
    by (simp add: images_get_def)
next
  assume a: "IMAGES_BUCKET e = Some bucket \<and> r2_get bucket filename = Inr (Some object)"
  let ?hs = "headers_set ''cache-control'' ''public, max-age=31536000''
      (headers_set ''etag'' (httpEtag object) (writeHttpMetadata (object_metadata object) []))"
  from a have r: "images_get e filename = (Response (object_body object) ?hs, [R2_get filename])"
    by (simp add: images_get_def)
  then show "\<exists>headers. images_get e filename =
      (Response (object_body object) headers, [R2_get filename])"
    by blast
  show "status (fst (images_get e filename)) = 200" by (simp add: r)
  show "header (fst (images_get e filename)) ''content-type'' = contentType (object_metadata object)"
    by (simp add: r header_def map_of_headers_set content_type_written)
  show "header (fst (images_get e filename)) ''etag'' = Some (httpEtag object)"
    by (simp add: r header_def map_of_headers_set)
  show "header (fst (images_get e filename)) ''cache-control'' = Some ''public, max-age=31536000''"
    by (simp add: r header_def map_of_headers_set)
qed

theorem media_fetch_witness:
  "status (fst (images_get (sample_env (Some ''sk-test'') None)
      ''timetravel-medieval-1730641200000.png'')) = 500 \<and>
   status (fst (images_get (sample_env (Some ''sk-test'') (Some sample_bucket))
      ''timetravel-medieval-17.png'')) = 404 \<and>
   status (fst (images_get (sample_env (Some ''sk-test'') (Some sample_bucket))
      ''timetravel-medieval-1730641200000.png'')) = 200 \<and>
   header (fst (images_get (sample_env (Some ''sk-test'') (Some sample_bucket))
      ''timetravel-medieval-1730641200000.png'')) ''content-type'' = Some ''image/png'' \<and>
   header (fst (images_get (sample_env (Some ''sk-test'') (Some sample_bucket))
      ''timetravel-medieval-1730641200000.png'')) ''cache-control'' =
     Some ''public, max-age=31536000''"
proof -
  let ?k = "''timetravel-medieval-1730641200000.png''"
  have unbound: "IMAGES_BUCKET (sample_env (Some ''sk-test'') None) = None"
    by (simp add: sample_env_def)
  have absent: "IMAGES_BUCKET (sample_env (Some ''sk-test'') (Some sample_bucket)) =
      Some sample_bucket \<and> r2_get sample_bucket ''timetravel-medieval-17.png'' = Inr None"
    by (simp add: sample_env_def sample_bucket_def)
  have present: "IMAGES_BUCKET (sample_env (Some ''sk-test'') (Some sample_bucket)) =
      Some sample_bucket \<and> r2_get sample_bucket ?k = Inr (Some sample_object)"
    by (simp add: sample_env_def sample_bucket_def)
  have ct: "contentType (object_metadata sample_object) = Some ''image/png''"
    by (simp add: sample_object_def png_options_def)
  from media_fetch [of "sample_env (Some ''sk-test'') None" ?k sample_bucket sample_object]
    unbound
  have "status (fst (images_get (sample_env (Some ''sk-test'') None) ?k)) = 500" by simp
  moreover
  from media_fetch [of "sample_env (Some ''sk-test'') (Some sample_bucket)"
      "''timetravel-medieval-17.png''" sample_bucket sample_object] absent
  have "status (fst (images_get (sample_env (Some ''sk-test'') (Some sample_bucket))
      ''timetravel-medieval-17.png'')) = 404" by simp
  moreover
  from media_fetch [of "sample_env (Some ''sk-test'') (Some sample_bucket)" ?k
      sample_bucket sample_object] present ct
  have "status (fst (images_get (sample_env (Some ''sk-test'') (Some sample_bucket)) ?k)) = 200 \<and>
    header (fst (images_get (sample_env (Some ''sk-test'') (Some sample_bucket)) ?k))
      ''content-type'' = Some ''image/png'' \<and>
    header (fst (images_get (sample_env (Some ''sk-test'') (Some sample_bucket)) ?k))
      ''cache-control'' = Some ''public, max-age=31536000''"
    by simp
  ultimately show ?thesis by simp
qed

text \<open>
  Claim C9. When a store is bound and \<open>list\<close> returns, the media list handler answers
  with \<open>{images, count}\<close>: \<open>images\<close> has one entry for each object of the listing, in the
  order of the listing, which holds the object's \<open>key\<close>, the \<open>url\<close> \<open>/api/images/<key>\<close>,
  its \<open>size\<close> and its \<open>uploaded\<close> date; \<open>count\<close> is the length of \<open>images\<close>.
\<close>

theorem media_list:
  assumes "IMAGES_BUCKET e = Some bucket" and "r2_list bucket = Inr listing"
  shows "\<exists>images.
    images_list e =
      (Json (JObj [(''images'', JArr images), (''count'', JNum (int (length images)))]) 200,
       [R2_list]) \<and>
    length images = length (objects listing) \<and>
    (\<forall>n < length (objects listing).
      images ! n =
        JObj [(''key'', JStr (key (objects listing ! n))),
              (''url'', JStr (''/api/images/'' @ key (objects listing ! n))),
              (''size'', JNum (int (size (objects listing ! n)))),
              (''uploaded'', JStr (uploaded (objects listing ! n)))])"
proof -
  let ?images = "map image_entry (objects listing)"
  have "images_list e =
      (Json (JObj [(''images'', JArr ?images), (''count'', JNum (int (length ?images)))]) 200,
       [R2_list])"
    using assms by (simp add: images_list_def)
  moreover have "length ?images = length (objects listing)" by simp
  moreover have "\<forall>n < length (objects listing).
      ?images ! n =
        JObj [(''key'', JStr (key (objects listing ! n))),
              (''url'', JStr (''/api/images/'' @ key (objects listing ! n))),
              (''size'', JNum (int (size (objects listing ! n)))),
              (''uploaded'', JStr (uploaded (objects listing ! n)))]"
    by (simp add: image_entry_def)
  ultimately show ?thesis by blast
qed

theorem media_list_witness:
  "field (fst (images_list (sample_env None (Some sample_bucket)))) ''count'' = Some (JNum 1) \<and>
   field (fst (images_list (sample_env None (Some sample_bucket)))) ''images'' =
     Some (JArr [JObj [(''key'', JStr ''timetravel-medieval-1730641200000.png''),
                       (''url'', JStr ''/api/images/timetravel-medieval-1730641200000.png''),
                       (''size'', JNum 3),
                       (''uploaded'', JStr ''2024-11-03T13:40:00.000Z'')]])"
proof -
  let ?e = "sample_env None (Some sample_bucket)"
  have b: "IMAGES_BUCKET ?e = Some sample_bucket" by (simp add: sample_env_def)
  have l: "r2_list sample_bucket = Inr sample_listing" by (simp add: sample_bucket_def)
  from media_list [OF b l] obtain images where
    r: "images_list ?e =
      (Json (JObj [(''images'', JArr images), (''count'', JNum (int (length images)))]) 200,
       [R2_list])"
    and len: "length images = length (objects sample_listing)"
    and nth: "\<forall>n < length (objects sample_listing).
      images ! n =
        JObj [(''key'', JStr (key (objects sample_listing ! n))),
              (''url'', JStr (''/api/images/'' @ key (objects sample_listing ! n))),
              (''size'', JNum (int (size (objects sample_listing ! n)))),
              (''uploaded'', JStr (uploaded (objects sample_listing ! n)))]"
    by blast
  from len have one: "length images = 1" by (simp add: sample_listing_def)
  then obtain x where x: "images = [x]" by (cases images) auto
  from nth have "images ! 0 =
      JObj [(''key'', JStr ''timetravel-medieval-1730641200000.png''),
            (''url'', JStr ''/api/images/timetravel-medieval-1730641200000.png''),
            (''size'', JNum 3),
            (''uploaded'', JStr ''2024-11-03T13:40:00.000Z'')]"
    by (simp add: sample_listing_def)
  with x r show ?thesis by (simp add: field_def)
qed

subsection \<open>The era listing\<close>

text \<open>
  Claim C8. For every id of an era of the table, the listing that the time-periods
  handler returns holds exactly one entry with that id, and the entry has a non-empty
  \<open>name\<close> and a non-empty \<open>prompt\<close>.
\<close>

theorem time_periods_listing:
  assumes "i \<in> set (map period_id TIME_PERIODS)"
  shows "\<exists>entries name prompt.
    time_periods = Json (JArr entries) 200 \<and>
    filter (\<lambda>entry. get_property entry ''id'' = Inr (Some (JStr i))) entries =
      [JObj [(''id'', JStr i), (''name'', JStr name), (''prompt'', JStr prompt)]] \<and>
    name \<noteq> [] \<and> prompt \<noteq> []"
proof -
  from assms have "i = ''prehistoric'' \<or> i = ''ancient-egypt'' \<or> i = ''roman-empire'' \<or>
      i = ''medieval'' \<or> i = ''renaissance'' \<or> i = ''wild-west'' \<or>
      i = ''roaring-twenties'' \<or> i = ''future''"
    by (simp add: TIME_PERIODS_def)
  then show ?thesis
    by (elim disjE) (simp_all add: time_periods_def TIME_PERIODS_def period_json_def)
qed

theorem time_periods_listing_witness:
  "\<exists>entries name prompt.
    time_periods = Json (JArr entries) 200 \<and>
    filter (\<lambda>entry. get_property entry ''id'' = Inr (Some (JStr ''future''))) entries =
      [JObj [(''id'', JStr ''future''), (''name'', JStr name), (''prompt'', JStr prompt)]] \<and>
    name \<noteq> [] \<and> prompt \<noteq> []"
proof -
  have "''future'' \<in> set (map period_id TIME_PERIODS)" by (simp add: TIME_PERIODS_def)
  then show ?thesis by (rule time_periods_listing)
qed

subsection \<open>The keys of stored images\<close>

lemma dash_no_digit: "CHR ''-'' \<notin> set (nat_to_string n)"
  using nat_to_string_digits [of n] by auto

lemma split_at_last_dash:
  assumes "CHR ''-'' \<notin> set d1" and "CHR ''-'' \<notin> set d2"
    and "a @ CHR ''-'' # d1 = b @ CHR ''-'' # d2"
  shows "a = b \<and> d1 = d2"
proof -
  let ?P = "\<lambda>c. c \<noteq> CHR ''-''"
  from assms(3) have "rev (a @ CHR ''-'' # d1) = rev (b @ CHR ''-'' # d2)" by simp
  then have "takeWhile ?P (rev d1 @ CHR ''-'' # rev a) = takeWhile ?P (rev d2 @ CHR ''-'' # rev b)"
    by simp
  moreover have "takeWhile ?P (rev d1 @ CHR ''-'' # rev a) = rev d1"
    using assms(1) by (auto simp add: takeWhile_tail)
  moreover have "takeWhile ?P (rev d2 @ CHR ''-'' # rev b) = rev d2"
    using assms(2) by (auto simp add: takeWhile_tail)
  ultimately have "d1 = d2" by simp
  with assms(3) show ?thesis by simp
qed

lemma filename_of_inj:
  "(filename_of p t = filename_of q u) = (period_id p = period_id q \<and> t = u)"
proof
  assume "filename_of p t = filename_of q u"
  then have "(period_id p @ CHR ''-'' # nat_to_string t) @ ''.png'' =
      (period_id q @ CHR ''-'' # nat_to_string u) @ ''.png''"
    by (simp add: filename_of_def)
  then have "period_id p @ CHR ''-'' # nat_to_string t = period_id q @ CHR ''-'' # nat_to_string u"
    by (simp only: append_same_eq)
  then have "period_id p = period_id q \<and> nat_to_string t = nat_to_string u"
    by (intro split_at_last_dash dash_no_digit)
  then show "period_id p = period_id q \<and> t = u"
    by (simp add: nat_to_string_inj)
next
  assume "period_id p = period_id q \<and> t = u"
  then show "filename_of p t = filename_of q u" by (simp add: filename_of_def)
qed

lemma put_keys_store_image:
  "set (put_keys (snd (store_image e pf period b64))) \<subseteq> {filename_of period (Date_now pf)}"
  by (simp add: store_image_def Let_def split: option.split sum.split js_error.split)

lemma put_keys_generate:
  "set (put_keys (snd (generate e pf apiKey period imageData))) \<subseteq>
    {filename_of period (Date_now pf)}"
proof (cases "\<exists>s. imageData = Some (JStr s)")
  case False
  then show ?thesis
    by (simp add: generate_def split: option.split json.split)
next
  case True
  then obtain s where s: "imageData = Some (JStr s)" by blast
  show ?thesis
    using put_keys_store_image [of e pf period]
    by (simp add: s generate_def Let_def case_prod_unfold
        split: sum.split js_error.split option.split list.split)
qed

lemma put_keys_time_travel:
  assumes "k \<in> set (put_keys (snd (time_travel e pf (Some body))))"
  shows "\<exists>period. get_property body ''timeperiod'' = Inr (Some (JStr (period_id period))) \<and>
    k = filename_of period (Date_now pf)"
proof -
  obtain timeperiod imageData where tp: "get_property body ''timeperiod'' = Inr timeperiod"
    and img: "get_property body ''imageData'' = Inr imageData"
    using assms by (cases "get_property body ''timeperiod''"; cases "get_property body ''imageData''")
      (auto simp: time_travel_def)
  from assms obtain apiKey period where era: "find_period timeperiod = Some period"
    and run: "time_travel e pf (Some body) = generate e pf apiKey period imageData"
    by (auto simp: time_travel_def tp img split: if_splits option.splits list.splits)
  from era have "timeperiod = Some (JStr (period_id period))" by (rule find_period_string)
  moreover from assms run have "k = filename_of period (Date_now pf)"
    using put_keys_generate [of e pf apiKey period imageData] by auto
  ultimately show ?thesis using tp by blast
qed

text \<open>
  Claim C6, as stated, fails: two requests for the same era that read the same
  millisecond from the clock write two different images under the same key.
\<close>

theorem same_millisecond_same_key_counterexample:
  "tl (snd (time_travel (sample_env (Some ''sk-test'') (Some sample_bucket))
      (sample_platform ''QUJD'')
      (Some (JObj [(''timeperiod'', JStr ''medieval''), (''imageData'', JStr ''AAAA'')])))) =
     [R2_put ''timetravel-medieval-1730641200000.png'' (Buffer_from_base64 ''QUJD'') png_options] \<and>
   tl (snd (time_travel (sample_env (Some ''sk-test'') (Some sample_bucket))
      (sample_platform ''REVG'')
      (Some (JObj [(''timeperiod'', JStr ''medieval''), (''imageData'', JStr ''BBBB'')])))) =
     [R2_put ''timetravel-medieval-1730641200000.png'' (Buffer_from_base64 ''REVG'') png_options]"
proof -
  have cred: "OPENAI_API_KEY (sample_env (Some ''sk-test'') (Some sample_bucket)) = Some ''sk-test''"
    "''sk-test'' \<noteq> []"
    by (simp_all add: sample_env_def)
  have store: "IMAGES_BUCKET (sample_env (Some ''sk-test'') (Some sample_bucket)) = Some sample_bucket"
    by (simp add: sample_env_def)
  have wr: "r2_put sample_bucket k b opts = Inr ()" for k b opts
    by (simp add: sample_bucket_def)
  have name: "filename_of medieval (Date_now (sample_platform b64)) =
      ''timetravel-medieval-1730641200000.png''" for b64
    by (simp add: filename_of_def medieval_def sample_platform_def nat_to_string.simps
        digit_char_def)
  have "tl (snd (time_travel (sample_env (Some ''sk-test'') (Some sample_bucket))
      (sample_platform b64)
      (Some (JObj [(''timeperiod'', JStr ''medieval''), (''imageData'', JStr img)])))) =
     [R2_put ''timetravel-medieval-1730641200000.png'' (Buffer_from_base64 b64) png_options]"
    if "img \<noteq> []" and "b64 \<noteq> []" for img b64
    by (simp add: time_travel_valid [OF sample_request_valid that(1) cred]
        generate_image [OF sample_platform_answer that(2)]
        store_image_stored [OF store wr] name)
  then show ?thesis by simp
qed

text \<open>
  Claim C6, amended. Two storage writes of the transform handler go to the same key
  exactly when the two requests name the same era and read the same millisecond from
  the clock: the keys of two writes differ whenever the eras differ or the clock
  readings differ.
\<close>

theorem put_keys_equal_iff:
  assumes "k1 \<in> set (put_keys (snd (time_travel e1 pf1 (Some body1))))"
    and "k2 \<in> set (put_keys (snd (time_travel e2 pf2 (Some body2))))"
  shows "(k1 = k2) =
    (get_property body1 ''timeperiod'' = get_property body2 ''timeperiod'' \<and>
     Date_now pf1 = Date_now pf2)"
proof -
  from put_keys_time_travel [OF assms(1)] obtain p1 where
    p1: "get_property body1 ''timeperiod'' = Inr (Some (JStr (period_id p1)))"
      "k1 = filename_of p1 (Date_now pf1)"
    by blast
  from put_keys_time_travel [OF assms(2)] obtain p2 where
    p2: "get_property body2 ''timeperiod'' = Inr (Some (JStr (period_id p2)))"
      "k2 = filename_of p2 (Date_now pf2)"
    by blast
  show ?thesis by (simp add: p1 p2 filename_of_inj)
qed

theorem put_keys_equal_iff_witness:
  "''timetravel-medieval-1730641200000.png'' \<in> set (put_keys (snd (time_travel
      (sample_env (Some ''sk-test'') (Some sample_bucket)) (sample_platform ''QUJD'')
      (Some (JObj [(''timeperiod'', JStr ''medieval''), (''imageData'', JStr ''AAAA'')]))))) \<and>
   ''timetravel-medieval-1730641200001.png'' \<in> set (put_keys (snd (time_travel
      (sample_env (Some ''sk-test'') (Some sample_bucket))
      ((sample_platform ''QUJD'')\<lparr>Date_now := 1730641200001\<rparr>)
      (Some (JObj [(''timeperiod'', JStr ''medieval''), (''imageData'', JStr ''AAAA'')]))))) \<and>
   Date_now (sample_platform ''QUJD'') \<noteq>
     Date_now ((sample_platform ''QUJD'')\<lparr>Date_now := 1730641200001\<rparr>)"
proof -
  let ?e = "sample_env (Some ''sk-test'') (Some sample_bucket)"
  let ?body = "JObj [(''timeperiod'', JStr ''medieval''), (''imageData'', JStr ''AAAA'')]"
  let ?pf1 = "sample_platform ''QUJD''"
  let ?pf2 = "(sample_platform ''QUJD'')\<lparr>Date_now := 1730641200001\<rparr>"
  have run: "put_keys (snd (time_travel ?e pf (Some ?body))) = [filename_of medieval (Date_now pf)]"
    if "images_edit pf = images_edit ?pf1" for pf
  proof -
    have cred: "OPENAI_API_KEY ?e = Some ''sk-test''" "''sk-test'' \<noteq> []"
      by (simp_all add: sample_env_def)
    have store: "IMAGES_BUCKET ?e = Some sample_bucket" by (simp add: sample_env_def)
    have wr: "r2_put sample_bucket k b opts = Inr ()" for k b opts
      by (simp add: sample_bucket_def)
    have s: "''AAAA'' \<noteq> []" and b: "''QUJD'' \<noteq> []" by simp_all
    have up: "images_edit pf ''sk-test'' (edit_request_of medieval ''AAAA'') =
        Inr \<lparr>data = Some [\<lparr>b64_json = Some ''QUJD''\<rparr>]\<rparr>"
      by (simp add: that sample_platform_answer)
    show ?thesis
      by (simp add: time_travel_valid [OF sample_request_valid s cred]
          generate_image [OF up sample_platform_answer(2,3) b]
          store_image_stored [OF store wr])
  qed
  have k1: "''timetravel-medieval-1730641200000.png'' \<in>
      set (put_keys (snd (time_travel ?e ?pf1 (Some ?body))))"
    by (simp add: run filename_of_def medieval_def sample_platform_def nat_to_string.simps
        digit_char_def)
  have k2: "''timetravel-medieval-1730641200001.png'' \<in>
      set (put_keys (snd (time_travel ?e ?pf2 (Some ?body))))"
    by (simp add: run filename_of_def medieval_def sample_platform_def nat_to_string.simps
        digit_char_def)
  from put_keys_equal_iff [OF k1 k2] have "Date_now ?pf1 \<noteq> Date_now ?pf2" by simp
  with k1 k2 show ?thesis by blast
qed

subsection \<open>The request to the image service\<close>

lemma promptText_determines_period:
  assumes "promptText p = promptText q"
  shows "period_prompt p = period_prompt q"
proof -
  from assms have "length (promptText p) = length (promptText q)" by simp
  then have "length (period_prompt p) = length (period_prompt q)"
    by (simp add: promptText_def)
  with assms show ?thesis by (simp add: promptText_def)
qed

text \<open>
  Claim C7, as stated, fails: a data URI prefix that the pattern of line 115 does not
  match, here that of an SVG image, is not removed, and the whole string goes to the
  decoder.
\<close>

theorem svg_prefix_kept_counterexample:
  "hd (snd (time_travel (sample_env (Some ''sk-test'') None) (sample_platform ''QUJD'')
      (Some (JObj [(''timeperiod'', JStr ''medieval''),
                   (''imageData'', JStr ''data:image/svg+xml;base64,AAAA'')])))) =
    Images_edit ''sk-test''
      \<lparr>model = ''gpt-image-1'',
       image = File (Buffer_from_base64 ''data:image/svg+xml;base64,AAAA'') ''image.png''
         ''image/png'',
       prompt = promptText medieval, moderation = ''low''\<rparr>"
proof -
  have cred: "OPENAI_API_KEY (sample_env (Some ''sk-test'') None) = Some ''sk-test''"
    "''sk-test'' \<noteq> []"
    by (simp_all add: sample_env_def)
  have s: "''data:image/svg+xml;base64,AAAA'' \<noteq> []" and b: "''QUJD'' \<noteq> []" by simp_all
  have "replace_data_uri_prefix ''data:image/svg+xml;base64,AAAA'' =
      ''data:image/svg+xml;base64,AAAA''"
    by (simp add: replace_data_uri_prefix_def is_word_char_def)
  then show ?thesis
    by (simp add: time_travel_valid [OF sample_request_valid s cred]
        generate_image [OF sample_platform_answer b] edit_request_of_def)
qed

text \<open>
  Claim C7, amended. On a valid transform request with the credential configured, the
  first external call is the edit request to the image service, with model
  \<open>gpt-image-1\<close>, moderation \<open>low\<close>, the instruction built from the prompt of the era
  (which the instruction determines), and as image the base64 decoding of a payload:
  when the input is \<open>data:image/\<close>, one or more letters, digits or underscores,
  \<open>;base64,\<close> and a rest, the payload is the rest; every other input, also one with
  another data URI prefix, is the payload as it is.
\<close>

theorem edit_request_payload:
  assumes tp: "get_property body ''timeperiod'' = Inr (Some (JStr i))"
    and era: "find_period (Some (JStr i)) = Some period"
    and img: "get_property body ''imageData'' = Inr (Some (JStr s))"
    and s: "s \<noteq> []"
    and cred: "OPENAI_API_KEY e = Some apiKey" "apiKey \<noteq> []"
  shows "\<exists>payload effs.
    snd (time_travel e pf (Some body)) =
      Images_edit apiKey
        \<lparr>model = ''gpt-image-1'',
         image = File (Buffer_from_base64 payload) ''image.png'' ''image/png'',
         prompt = promptText period, moderation = ''low''\<rparr> # effs \<and>
    (\<forall>w rest. w \<noteq> [] \<and> list_all is_word_char w \<and>
        s = ''data:image/'' @ w @ '';base64,'' @ rest \<longrightarrow> payload = rest) \<and>
    ((\<nexists>w rest. w \<noteq> [] \<and> list_all is_word_char w \<and>
        s = ''data:image/'' @ w @ '';base64,'' @ rest) \<longrightarrow> payload = s) \<and>
    (\<forall>q. promptText q = promptText period \<longrightarrow> period_prompt q = period_prompt period)"
proof -
  let ?payload = "replace_data_uri_prefix s"
  obtain effs where "snd (generate e pf apiKey period (Some (JStr s))) =
      Images_edit apiKey (edit_request_of period s) # effs"
    using generate_calls_service by blast
  then have call: "snd (time_travel e pf (Some body)) =
      Images_edit apiKey
        \<lparr>model = ''gpt-image-1'',
         image = File (Buffer_from_base64 ?payload) ''image.png'' ''image/png'',
         prompt = promptText period, moderation = ''low''\<rparr> # effs"
    by (simp add: time_travel_valid [OF tp era img s cred] edit_request_of_def)
  have strips: "\<forall>w rest. w \<noteq> [] \<and> list_all is_word_char w \<and>
      s = ''data:image/'' @ w @ '';base64,'' @ rest \<longrightarrow> ?payload = rest"
    using replace_strips by blast
  have keeps: "(\<nexists>w rest. w \<noteq> [] \<and> list_all is_word_char w \<and>
      s = ''data:image/'' @ w @ '';base64,'' @ rest) \<longrightarrow> ?payload = s"
    using replace_keeps by blast
  have specific: "\<forall>q. promptText q = promptText period \<longrightarrow>
      period_prompt q = period_prompt period"
    using promptText_determines_period by blast
  show ?thesis
    apply (rule exI [of _ ?payload])
    apply (rule exI [of _ effs])
    using call strips keeps specific by (intro conjI)
qed

theorem edit_request_payload_witness:
  "hd (snd (time_travel (sample_env (Some ''sk-test'') None) (sample_platform ''QUJD'')
      (Some (JObj [(''timeperiod'', JStr ''medieval''),
                   (''imageData'', JStr ''data:image/png;base64,AAAA'')])))) =
    Images_edit ''sk-test''
      \<lparr>model = ''gpt-image-1'',
       image = File (Buffer_from_base64 ''AAAA'') ''image.png'' ''image/png'',
       prompt = promptText medieval, moderation = ''low''\<rparr>"
proof -
  let ?s = "''data:image/png;base64,AAAA''"
  let ?run = "snd (time_travel (sample_env (Some ''sk-test'') None) (sample_platform ''QUJD'')
      (Some (JObj [(''timeperiod'', JStr ''medieval''), (''imageData'', JStr ?s)])))"
  have cred: "OPENAI_API_KEY (sample_env (Some ''sk-test'') None) = Some ''sk-test''"
    "''sk-test'' \<noteq> []"
    by (simp_all add: sample_env_def)
  have s: "?s \<noteq> []" by simp
  have form: "''png'' \<noteq> [] \<and> list_all is_word_char ''png'' \<and>
      ?s = ''data:image/'' @ ''png'' @ '';base64,'' @ ''AAAA''"
    by (simp add: is_word_char_def)
  from edit_request_payload [OF sample_request_valid s cred, of "sample_platform ''QUJD''"]
  obtain payload effs where
    call: "?run =
      Images_edit ''sk-test''
        \<lparr>model = ''gpt-image-1'',
         image = File (Buffer_from_base64 payload) ''image.png'' ''image/png'',
         prompt = promptText medieval, moderation = ''low''\<rparr> # effs"
    and strips: "\<forall>w rest. w \<noteq> [] \<and> list_all is_word_char w \<and>
        ?s = ''data:image/'' @ w @ '';base64,'' @ rest \<longrightarrow> payload = rest"
    by (elim exE conjE)
  from strips [rule_format, OF form] have "payload = ''AAAA''" .
  with call show ?thesis by (simp only: list.sel)
qed

end
